theory Spec2Isabelle
  imports Main "HOL-Library.Word" "HOL-Library.Sublist"
begin

unbundle bit_operations_syntax

section \<open>Python values used by the decoder\<close>

text \<open>
  The decoder of \<^verbatim>\<open>fortilog_decoder.py\<close> works on byte strings, unbounded integers and
  two stream objects. Bytes are 8-bit words, Python integers are \<open>int\<close> (or \<open>nat\<close> where
  the source can only produce a non-negative number), and every exception the source can
  raise while decoding is a value of \<open>error\<close>.
\<close>

type_synonym byte = "8 word"
type_synonym bytes = "byte list"

datatype error = IndexError | StructError | NameError | ValueError

definition bind_err :: "error + 'a \<Rightarrow> ('a \<Rightarrow> error + 'b) \<Rightarrow> error + 'b" where
  "bind_err m f = (case m of Inl e \<Rightarrow> Inl e | Inr x \<Rightarrow> f x)"

text \<open>\<^verbatim>\<open>b[i]\<close>: a negative index counts from the end, an index out of range raises.\<close>

definition py_index :: "bytes \<Rightarrow> int \<Rightarrow> error + byte" where
  "py_index b i =
     (let n = int (length b); j = (if i < 0 then n + i else i)
      in if 0 \<le> j \<and> j < n then Inr (b ! nat j) else Inl IndexError)"

text \<open>\<^verbatim>\<open>b[i:j]\<close>: both bounds are clamped into the sequence, a negative bound counts
  from the end, and an empty range gives the empty sequence. Slicing never raises.\<close>

definition slice_bound :: "nat \<Rightarrow> int \<Rightarrow> nat" where
  "slice_bound n i =
     (if i < 0 then (if int n + i < 0 then 0 else nat (int n + i)) else min n (nat i))"

definition py_slice :: "'a list \<Rightarrow> int \<Rightarrow> int \<Rightarrow> 'a list" where
  "py_slice xs i j =
     (let lo = slice_bound (length xs) i; hi = slice_bound (length xs) j
      in take (hi - lo) (drop lo xs))"

text \<open>\<^verbatim>\<open>int.from_bytes(bs, "big")\<close> and \<^verbatim>\<open>int.from_bytes(bs, "little")\<close>.\<close>

definition from_bytes_big :: "bytes \<Rightarrow> nat" where
  "from_bytes_big bs = foldl (\<lambda>acc b. acc * 256 + unat b) 0 bs"

definition from_bytes_little :: "bytes \<Rightarrow> nat" where
  "from_bytes_little bs = foldr (\<lambda>b acc. unat b + 256 * acc) bs 0"

text \<open>
  \<^verbatim>\<open>struct.unpack_from(fmt, buffer, offset)\<close> with a big-endian format of \<open>width\<close> bytes:
  a negative offset counts from the end of the buffer, and the call raises
  \<^verbatim>\<open>struct.error\<close> when fewer than \<open>width\<close> bytes are left at the offset.
  With the prefix \<^verbatim>\<open>></\<close> the sizes are the standard ones: \<^verbatim>\<open>h\<close> 2 bytes, \<^verbatim>\<open>i\<close>,
  \<^verbatim>\<open>I\<close> and \<^verbatim>\<open>l\<close> 4 bytes, \<^verbatim>\<open>q\<close> 8 bytes.
\<close>

definition unpack_raw :: "nat \<Rightarrow> bytes \<Rightarrow> int \<Rightarrow> error + bytes" where
  "unpack_raw width body offset =
     (let n = int (length body); off = (if offset < 0 then offset + n else offset)
      in if off < 0 then Inl StructError
         else if n - off < int width then Inl StructError
         else Inr (take width (drop (nat off) body)))"

definition unsigned_be :: "bytes \<Rightarrow> int" where
  "unsigned_be bs = int (from_bytes_big bs)"

definition signed_be :: "bytes \<Rightarrow> int" where
  "signed_be bs =
     (let u = int (from_bytes_big bs)
      in if 2 ^ (8 * length bs - 1) \<le> u then u - 2 ^ (8 * length bs) else u)"

definition unpack_h :: "bytes \<Rightarrow> int \<Rightarrow> error + int" where
  "unpack_h body offset = bind_err (unpack_raw 2 body offset) (\<lambda>bs. Inr (signed_be bs))"

definition unpack_I :: "bytes \<Rightarrow> int \<Rightarrow> error + int" where
  "unpack_I body offset = bind_err (unpack_raw 4 body offset) (\<lambda>bs. Inr (unsigned_be bs))"

definition unpack_i :: "bytes \<Rightarrow> int \<Rightarrow> error + int" where
  "unpack_i body offset = bind_err (unpack_raw 4 body offset) (\<lambda>bs. Inr (signed_be bs))"

definition unpack_l :: "bytes \<Rightarrow> int \<Rightarrow> error + int" where
  "unpack_l body offset = bind_err (unpack_raw 4 body offset) (\<lambda>bs. Inr (signed_be bs))"

definition unpack_qq :: "bytes \<Rightarrow> int \<Rightarrow> error + int \<times> int" where
  "unpack_qq body offset =
     bind_err (unpack_raw 16 body offset)
       (\<lambda>bs. Inr (signed_be (take 8 bs), signed_be (drop 8 bs)))"

text \<open>
  \<^verbatim>\<open>bytes.split(sep)\<close> for a non-empty separator: the parts between the non-overlapping
  occurrences of \<open>sep\<close>, found from left to right. The source only calls it with the
  literals \<^verbatim>\<open>b"\x00"\<close> and \<^verbatim>\<open>b"date="\<close>.
\<close>

fun py_split :: "'a list \<Rightarrow> 'a list \<Rightarrow> 'a list list" where
  "py_split sep [] = [[]]"
| "py_split sep (x # xs) =
     (if sep \<noteq> [] \<and> prefix sep (x # xs)
      then [] # py_split sep (drop (length sep - 1) xs)
      else (let r = py_split sep xs in (x # hd r) # tl r))"

section \<open>Streams, diagnostics and module-level state\<close>

text \<open>
  A stream object has a \<^verbatim>\<open>name\<close> (as the file objects of \<^verbatim>\<open>open\<close> and
  \<^verbatim>\<open>gzip.open\<close> have), the bytes it holds and a position. The input stream is read at
  its position; the output stream receives what \<^verbatim>\<open>write\<close> appends. The model covers
  streams that have a name: the reader that \<^verbatim>\<open>zstd.open\<close> returns for a \<^verbatim>\<open>.zst\<close> input
  has no such attribute, and formatting a message with \<^verbatim>\<open>instream.name\<close> (line 146)
  raises \<^verbatim>\<open>AttributeError\<close> there, which is outside this model.
\<close>

record stream =
  name :: string
  data :: bytes
  pos :: nat

definition tell :: "stream \<Rightarrow> nat" where
  "tell s = pos s"

text \<open>\<^verbatim>\<open>read(n)\<close> for \<open>n \<ge> 0\<close>: up to \<open>n\<close> bytes, fewer at the end of the stream.\<close>

definition read_n :: "stream \<Rightarrow> nat \<Rightarrow> bytes \<times> stream" where
  "read_n s n =
     (let got = take n (drop (pos s) (data s)) in (got, s\<lparr>pos := pos s + length got\<rparr>))"

text \<open>\<^verbatim>\<open>read(n)\<close> for any integer: \<open>-1\<close> reads up to the end of the stream, and the
  gzip and zstandard readers raise \<^verbatim>\<open>ValueError\<close> for a size below \<open>-1\<close>.\<close>

definition read :: "stream \<Rightarrow> int \<Rightarrow> error + bytes \<times> stream" where
  "read s n =
     (if n < - 1 then Inl ValueError
      else if n = - 1 then Inr (read_n s (length (data s)))
      else Inr (read_n s (nat n)))"

definition write_bytes :: "stream \<Rightarrow> bytes \<Rightarrow> stream" where
  "write_bytes s bs = s\<lparr>data := data s @ bs\<rparr>"

text \<open>
  The messages of \<^verbatim>\<open>output_info\<close>, one constructor for each format string of the
  source, with the values the string interpolates.
\<close>

datatype diag =
    FoundLz4 nat
  | EntryHolds nat
  | Lz4Skipped nat string
  | FoundTlc nat
  | DecodedTlc nat
  | UnknownHeader string bytes nat
  | Done string nat
  | TlcHolds int
  | TlcCouldNotDecode nat string

text \<open>Module-level variables: \<^verbatim>\<open>debug\<close>, the two magic tags, the field table and the
  global \<^verbatim>\<open>file_ptr_pos\<close> (here \<open>global_file_ptr_pos\<close>), which the module sets to 0
  and never assigns again: \<^verbatim>\<open>decode_llogv5\<close> assigns a local variable of the same name,
  and \<^verbatim>\<open>parse_tlc\<close>, which has no such local variable, reads the global one.\<close>

definition debug :: bool where
  "debug = False"

definition magic :: bytes where
  "magic = [0xEC, 0xCF]"

definition tlc_magic :: bytes where
  "tlc_magic = [0xAA, 0x01]"

definition tlc_fields :: "string list" where
  "tlc_fields = ['''', ''devid'', ''devname'', ''vdom'', ''devtype'', ''logtype'', ''tmzone'',
     ''fazid'', ''srcip'', ''unused?'', ''unused?'', ''num-logs'', ''unzip-len'', ''incr-zip'',
     ''unzip-len-p'', ''prefix'', ''zbuf'', ''logs'']"

definition global_file_ptr_pos :: nat where
  "global_file_ptr_pos = 0"

text \<open>\<^verbatim>\<open>output_info\<close>: a debug message is dropped unless \<^verbatim>\<open>debug\<close> is set. Which of
  the console and the log file receives the message is not modelled: \<open>log\<close> is the
  sequence of messages emitted so far.\<close>

definition output_info :: "diag \<Rightarrow> bool \<Rightarrow> diag list \<Rightarrow> diag list" where
  "output_info fstr typedebug log = (if typedebug \<and> \<not> debug then log else log @ [fstr])"

text \<open>\<^verbatim>\<open>output_logs\<close>, for a binary output stream: each entry is written followed by
  a newline byte. The branch for the standard output, which decodes each entry to text
  first, is not modelled.\<close>

definition output_logs :: "stream \<Rightarrow> bytes list \<Rightarrow> stream" where
  "output_logs outstream entrieslist =
     foldl (\<lambda>out entry. write_bytes out (entry @ [0x0a])) outstream entrieslist"

section \<open>\<^verbatim>\<open>parse_tlc\<close>: the walk over a TLV body\<close>

text \<open>
  The local variables of \<^verbatim>\<open>parse_tlc\<close> that live across loop iterations.
  \<^verbatim>\<open>value\<close> and \<^verbatim>\<open>array\<close> are unbound (\<open>None\<close>) until a field of the matching
  category has been decoded, and keep the value of the last such field afterwards.
\<close>

record tlc_vars =
  pointer :: int
  lunzipped :: int
  val :: "int option"
  array :: "bytes option"

datatype ('s, 'r) step = Continue 's | Return 'r

text \<open>
  Lines 192 to 224: the type byte, the field id and the value of one field. The result is
  the field id and the updated variables, or the exception raised by an index or by
  \<^verbatim>\<open>struct.unpack_from\<close>. A category from 8 to 15 matches no branch: only the two
  header bytes are consumed.
\<close>

definition tlc_field :: "bytes \<Rightarrow> tlc_vars \<Rightarrow> error + nat \<times> tlc_vars" where
  "tlc_field body v0 =
     bind_err (py_index body (pointer v0)) (\<lambda>b0.
       let typehigh = unat (drop_bit 4 b0);
           typelow = unat (b0 AND 0x0F);
           v1 = v0\<lparr>pointer := pointer v0 + 1\<rparr>
       in bind_err (py_index body (pointer v1)) (\<lambda>fieldid.
         let v = v1\<lparr>pointer := pointer v1 + 1\<rparr>
         in bind_err
           (if typehigh \<le> 2 then
              bind_err
                (if typehigh = 0 then
                   bind_err (py_index body (pointer v))
                     (\<lambda>b. Inr (int (unat b), v\<lparr>pointer := pointer v + 1\<rparr>))
                 else if typehigh = 1 then
                   bind_err (unpack_h body (pointer v))
                     (\<lambda>n. Inr (n, v\<lparr>pointer := pointer v + 2\<rparr>))
                 else
                   bind_err (unpack_I body (pointer v))
                     (\<lambda>n. Inr (n, v\<lparr>pointer := pointer v + 4\<rparr>)))
                (\<lambda>(larray, w).
                   Inr (w\<lparr>array := Some (py_slice body (pointer w) (pointer w + larray)),
                          pointer := pointer w + larray\<rparr>))
            else if typehigh = 3 then
              bind_err (py_index body (pointer v))
                (\<lambda>b. Inr (v\<lparr>val := Some (int (unat b)), pointer := pointer v + 1\<rparr>))
            else if typehigh = 4 then
              bind_err (unpack_h body (pointer v))
                (\<lambda>n. Inr (v\<lparr>val := Some n, pointer := pointer v + 2\<rparr>))
            else if typehigh = 5 then
              bind_err (unpack_i body (pointer v))
                (\<lambda>n. Inr (v\<lparr>val := Some n, pointer := pointer v + 4\<rparr>))
            else if typehigh = 6 then
              bind_err (unpack_l body (pointer v))
                (\<lambda>n. Inr (v\<lparr>val := Some n, pointer := pointer v + 8\<rparr>))
            else if typehigh = 7 then
              bind_err (unpack_qq body (pointer v))
                (\<lambda>(vala, valb).
                   Inr (v\<lparr>val := Some (push_bit 64 vala OR valb), pointer := pointer v + 16\<rparr>))
            else Inr v)
           (\<lambda>w. Inr (unat fieldid, w))))"

text \<open>\<^verbatim>\<open>tlc_fields[fieldid]\<close>: the list has 18 entries and the index is not checked
  by the source, so an id from 18 on raises \<^verbatim>\<open>IndexError\<close>.\<close>

definition tlc_field_name :: "nat \<Rightarrow> error + string" where
  "tlc_field_name fieldid =
     (if fieldid < length tlc_fields then Inr (tlc_fields ! fieldid) else Inl IndexError)"

text \<open>
  Lines 226 to 240: what the walk does with the decoded field. \<open>instream\<close> and
  \<open>outstream\<close> are the parameters of \<^verbatim>\<open>parse_tlc\<close> under the names of its signature;
  \<open>lz4_frame\<close> stands for \<^verbatim>\<open>lz4.frame.decompress\<close> of the external library, called with
  the arguments of the source and returning \<open>None\<close> where the library raises. An
  exception leaves the function together with the messages emitted so far.
\<close>

definition tlc_dispatch ::
  "(bytes \<Rightarrow> int \<Rightarrow> bytes option) \<Rightarrow> stream \<Rightarrow> stream \<Rightarrow> nat \<Rightarrow> tlc_vars \<times> diag list
     \<Rightarrow> error \<times> diag list + (tlc_vars \<times> diag list, bytes \<times> diag list) step" where
  "tlc_dispatch lz4_frame instream outstream fieldid s =
     (let v = fst s; log = snd s in
      case tlc_field_name fieldid of
        Inl e \<Rightarrow> Inl (e, log)
      | Inr field \<Rightarrow>
          if field = ''unzip-len'' then
            (case val v of
               None \<Rightarrow> Inl (NameError, log)
             | Some value \<Rightarrow> Inr (Continue (v\<lparr>lunzipped := value\<rparr>, log)))
          else if field = ''num-logs'' then
            (case val v of
               None \<Rightarrow> Inl (NameError, log)
             | Some value \<Rightarrow> Inr (Continue (v, output_info (TlcHolds value) True log)))
          else if field = ''zbuf'' then
            (if lunzipped v = 0 then
               Inr (Return ([], output_info (TlcCouldNotDecode global_file_ptr_pos (name instream)) False log))
             else
               (case array v of
                  None \<Rightarrow> Inl (NameError, log)
                | Some a \<Rightarrow>
                    if length a = 0 then
                      Inr (Return ([], output_info (TlcCouldNotDecode global_file_ptr_pos (name instream)) False log))
                    else
                      (case lz4_frame a (lunzipped v) of
                         None \<Rightarrow>
                           Inr (Return ([], output_info (Lz4Skipped global_file_ptr_pos (name instream)) False log))
                       | Some decompressed \<Rightarrow> Inr (Return (decompressed, log)))))
          else Inr (Continue (v, log)))"

definition tlc_iter ::
  "(bytes \<Rightarrow> int \<Rightarrow> bytes option) \<Rightarrow> bytes \<Rightarrow> stream \<Rightarrow> stream \<Rightarrow> tlc_vars \<times> diag list
     \<Rightarrow> error \<times> diag list + (tlc_vars \<times> diag list, bytes \<times> diag list) step" where
  "tlc_iter lz4_frame body instream outstream s =
     (case tlc_field body (fst s) of
        Inl e \<Rightarrow> Inl (e, snd s)
      | Inr (fieldid, v) \<Rightarrow> tlc_dispatch lz4_frame instream outstream fieldid (v, snd s))"

text \<open>The \<^verbatim>\<open>while\<close> loop. It need not end, so the walk is a partial function: \<open>None\<close>
  is a walk that never returns, \<open>Some (Inl _)\<close> an exception, \<open>Some (Inr _)\<close> the
  returned buffer with the messages emitted.\<close>

partial_function (option) parse_tlc_loop ::
  "(bytes \<Rightarrow> int \<Rightarrow> bytes option) \<Rightarrow> bytes \<Rightarrow> stream \<Rightarrow> stream \<Rightarrow> tlc_vars \<times> diag list
     \<Rightarrow> (error \<times> diag list + bytes \<times> diag list) option" where
  "parse_tlc_loop lz4_frame body instream outstream s =
     (if pointer (fst s) < int (length body) then
        (case tlc_iter lz4_frame body instream outstream s of
           Inl e \<Rightarrow> Some (Inl e)
         | Inr (Continue s') \<Rightarrow> parse_tlc_loop lz4_frame body instream outstream s'
         | Inr (Return r) \<Rightarrow> Some (Inr r))
      else Some (Inr ([], snd s)))"

declare parse_tlc_loop.simps [code]

definition parse_tlc ::
  "(bytes \<Rightarrow> int \<Rightarrow> bytes option) \<Rightarrow> bytes \<Rightarrow> stream \<Rightarrow> stream \<Rightarrow> diag list
     \<Rightarrow> (error \<times> diag list + bytes \<times> diag list) option" where
  "parse_tlc lz4_frame body instream outstream log =
     parse_tlc_loop lz4_frame body instream outstream
       (\<lparr>pointer = 0, lunzipped = 0, val = None, array = None\<rparr>, log)"

section \<open>\<^verbatim>\<open>decode_llogv5\<close>: the scanner and the two record decoders\<close>

text \<open>The variables of \<^verbatim>\<open>decode_llogv5\<close> that live across loop iterations, with the
  two streams and the messages emitted so far.\<close>

record scan =
  instream :: stream
  outstream :: stream
  diags :: "diag list"
  logentries :: nat

text \<open>\<^verbatim>\<open>range(0, n, 2)\<close>.\<close>

definition range_step2 :: "nat \<Rightarrow> nat list" where
  "range_step2 n = map (\<lambda>k. 2 * k) [0..<(n + 1) div 2]"

text \<open>Lines 137 to 140: the loop over the length table, with the loop variables
  \<^verbatim>\<open>pointer\<close> (here \<open>ptr\<close>) and \<^verbatim>\<open>entries\<close> as accumulators.\<close>

fun split_entries :: "bytes \<Rightarrow> bytes \<Rightarrow> nat list \<Rightarrow> nat \<Rightarrow> bytes list \<Rightarrow> bytes list" where
  "split_entries entrieslengths decompressed [] ptr entries = entries"
| "split_entries entrieslengths decompressed (no # nos) ptr entries =
     (let l = from_bytes_big (py_slice entrieslengths (int no) (int no + 2))
      in split_entries entrieslengths decompressed nos (ptr + l)
           (entries @ [py_slice decompressed (int ptr) (int ptr + int l)]))"

text \<open>Lines 134 to 142: the entries of a block record whose payload decompressed.\<close>

definition block_entries :: "nat \<Rightarrow> bytes \<Rightarrow> bytes \<Rightarrow> bytes list" where
  "block_entries entrycount entrieslengths decompressed =
     (if entrycount > 1 then
        split_entries entrieslengths decompressed (range_step2 (entrycount * 2)) 0 []
      else if entrycount = 1 then [decompressed]
      else [])"

text \<open>
  Lines 113 to 151: a block record. \<open>lz4_block\<close> stands for \<^verbatim>\<open>lz4.block.decompress\<close>
  of the external library, called with the arguments of the source and returning \<open>None\<close>
  where the library raises. The handler of the exception ends with \<^verbatim>\<open>continue\<close>, so
  the two reads of the trailer are made on the other path only.
\<close>

definition block_record ::
  "(bytes \<Rightarrow> int \<Rightarrow> bytes option) \<Rightarrow> nat \<Rightarrow> scan \<Rightarrow> error \<times> scan + (scan, scan) step" where
  "block_record lz4_block file_ptr_pos st0 =
     (let st1 = st0\<lparr>diags := output_info (FoundLz4 file_ptr_pos) True (diags st0)\<rparr>;
          (head, ins1) = read_n (instream st1) 16;
          st2 = st1\<lparr>instream := ins1\<rparr>
      in case py_index head 0 of Inl e \<Rightarrow> Inl (e, st2) | Inr head0 \<Rightarrow>
         case py_index head 3 of Inl e \<Rightarrow> Inl (e, st2) | Inr head3 \<Rightarrow>
         case py_index head 4 of Inl e \<Rightarrow> Inl (e, st2) | Inr head4 \<Rightarrow>
         case py_index head 5 of Inl e \<Rightarrow> Inl (e, st2) | Inr head5 \<Rightarrow>
         (let flag = unat (drop_bit 2 head0 AND 1);
              ldevid = unat head3;
              ldevname = unat head4;
              lvdom = unat head5;
              entrycount = from_bytes_big (py_slice head 6 8);
              st3 = st2\<lparr>diags := output_info (EntryHolds entrycount) True (diags st2)\<rparr>;
              lentrycounts = entrycount * 2;
              lsomething = (if flag \<noteq> 0 then lentrycounts else 0);
              lcompressed = from_bytes_big (py_slice head 8 10);
              ldecompressed = from_bytes_big (py_slice head 10 12);
              lascii = ldevid + ldevname + lvdom;
              (body, ins2) = read_n (instream st3) (lascii + lentrycounts + lsomething + lcompressed);
              st4 = st3\<lparr>instream := ins2\<rparr>;
              compressed_from = lascii + lentrycounts + lsomething;
              entrieslengths = py_slice body (int lascii) (int (lascii + lentrycounts));
              compressed_to = compressed_from + lcompressed;
              compressed = py_slice body (int compressed_from) (int compressed_to)
          in case lz4_block compressed (int ldecompressed + 1) of
               None \<Rightarrow>
                 Inr (Continue (st4\<lparr>diags :=
                   output_info (Lz4Skipped file_ptr_pos (name (instream st4))) False (diags st4)\<rparr>))
             | Some decompressed \<Rightarrow>
                 (let entries = block_entries entrycount entrieslengths decompressed;
                      st5 = st4\<lparr>logentries := logentries st4 + length entries,
                                outstream := output_logs (outstream st4) entries\<rparr>;
                      (head2, ins3) = read_n (instream st5) 2;
                      body2 = from_bytes_little head2;
                      (skipped, ins4) = read_n ins3 body2
                  in Inr (Continue (st5\<lparr>instream := ins4\<rparr>)))))"

text \<open>Line 165: \<^verbatim>\<open>bytearray(map(ord, "date="))\<close>.\<close>

definition date_marker :: bytes where
  "date_marker = map of_char ''date=''"

text \<open>Lines 163 to 170: the loop over the pieces of the decompressed buffer, with the
  list \<open>entries\<close> as accumulator.\<close>

fun tlc_entries_loop :: "bytes list \<Rightarrow> bytes list \<Rightarrow> bytes list" where
  "tlc_entries_loop [] entries = entries"
| "tlc_entries_loop (raw_entry # rest) entries =
     (let entry = date_marker;
          entryparts = py_split entry raw_entry
      in if length entryparts \<noteq> 2 then tlc_entries_loop rest entries
         else tlc_entries_loop rest (entries @ [entry @ entryparts ! 1]))"

definition tlc_entries :: "bytes \<Rightarrow> bytes list" where
  "tlc_entries tlc = tlc_entries_loop (py_split [0x00] tlc) []"

text \<open>
  Lines 157 to 173: an envelope record. The call of line 161 passes the output stream
  as second argument and the input stream as third, while the signature of
  \<^verbatim>\<open>parse_tlc\<close> names its second parameter \<^verbatim>\<open>instream\<close> and its third
  \<^verbatim>\<open>outstream\<close>.
\<close>

definition tlc_record ::
  "(bytes \<Rightarrow> int \<Rightarrow> bytes option) \<Rightarrow> nat \<Rightarrow> scan \<Rightarrow> (error \<times> scan + (scan, scan) step) option" where
  "tlc_record lz4_frame file_ptr_pos st0 =
     (let st1 = st0\<lparr>diags := output_info (FoundTlc file_ptr_pos) True (diags st0)\<rparr>;
          (reserved, ins1) = read_n (instream st1) 2;
          (lbody_bytes, ins2) = read_n ins1 4;
          lbody = from_bytes_big lbody_bytes;
          st2 = st1\<lparr>instream := ins2\<rparr>
      in case read (instream st2) (int lbody - 8) of
           Inl e \<Rightarrow> Some (Inl (e, st2))
         | Inr (body, ins3) \<Rightarrow>
             (let st3 = st2\<lparr>instream := ins3\<rparr>
              in case parse_tlc lz4_frame body (outstream st3) (instream st3) (diags st3) of
                   None \<Rightarrow> None
                 | Some (Inl (e, log)) \<Rightarrow> Some (Inl (e, st3\<lparr>diags := log\<rparr>))
                 | Some (Inr (tlc, log)) \<Rightarrow>
                     (let entries = tlc_entries tlc;
                          st4 = st3\<lparr>diags := output_info (DecodedTlc (length entries)) True log,
                                    logentries := logentries st3 + length entries\<rparr>
                      in Some (Inr (Continue (st4\<lparr>outstream := output_logs (outstream st4) entries\<rparr>))))))"

text \<open>Lines 100 to 181: one iteration of the scanner. \<open>Continue\<close> is the next iteration,
  \<open>Return\<close> a \<^verbatim>\<open>break\<close>.\<close>

definition llogv5_iter ::
  "(bytes \<Rightarrow> int \<Rightarrow> bytes option) \<Rightarrow> (bytes \<Rightarrow> int \<Rightarrow> bytes option) \<Rightarrow> string \<Rightarrow> scan
     \<Rightarrow> (error \<times> scan + (scan, scan) step) option" where
  "llogv5_iter lz4_block lz4_frame sourcefile st0 =
     (let file_ptr_pos = tell (instream st0);
          (logtype, ins) = read_n (instream st0) 2;
          st = st0\<lparr>instream := ins\<rparr>
      in if logtype = magic then Some (block_record lz4_block file_ptr_pos st)
         else if logtype = tlc_magic then tlc_record lz4_frame file_ptr_pos st
         else if logtype = [0x00, 0x00] \<or> logtype = [0x00] then Some (Inr (Continue st))
         else if length logtype > 0 then
           Some (Inr (Return (st\<lparr>diags :=
             output_info (UnknownHeader sourcefile logtype file_ptr_pos) False (diags st)\<rparr>)))
         else
           Some (Inr (Return (st\<lparr>diags :=
             output_info (Done sourcefile (logentries st)) False (diags st)\<rparr>))))"

partial_function (option) decode_llogv5_loop ::
  "(bytes \<Rightarrow> int \<Rightarrow> bytes option) \<Rightarrow> (bytes \<Rightarrow> int \<Rightarrow> bytes option) \<Rightarrow> string \<Rightarrow> scan
     \<Rightarrow> (error \<times> scan + scan) option" where
  "decode_llogv5_loop lz4_block lz4_frame sourcefile st =
     (case llogv5_iter lz4_block lz4_frame sourcefile st of
        None \<Rightarrow> None
      | Some (Inl e) \<Rightarrow> Some (Inl e)
      | Some (Inr (Continue st')) \<Rightarrow> decode_llogv5_loop lz4_block lz4_frame sourcefile st'
      | Some (Inr (Return st')) \<Rightarrow> Some (Inr st'))"

declare decode_llogv5_loop.simps [code]

definition decode_llogv5 ::
  "(bytes \<Rightarrow> int \<Rightarrow> bytes option) \<Rightarrow> (bytes \<Rightarrow> int \<Rightarrow> bytes option) \<Rightarrow> stream \<Rightarrow> string \<Rightarrow> stream
     \<Rightarrow> (error \<times> scan + scan) option" where
  "decode_llogv5 lz4_block lz4_frame ins sourcefile outs =
     decode_llogv5_loop lz4_block lz4_frame sourcefile
       \<lparr>instream = ins, outstream = outs, diags = [], logentries = 0\<rparr>"

text \<open>
  A run of loop iterations that all reach the end of the loop body: \<open>tlc_walk s ids s'\<close>
  holds when the loop, started with the variables and messages \<open>s\<close>, decodes in turn
  fields with the ids \<open>ids\<close>, none of which makes \<^verbatim>\<open>parse_tlc\<close> return or raise, and
  arrives at the loop test with \<open>s'\<close>.
\<close>

inductive tlc_walk ::
  "(bytes \<Rightarrow> int \<Rightarrow> bytes option) \<Rightarrow> bytes \<Rightarrow> stream \<Rightarrow> stream \<Rightarrow> tlc_vars \<times> diag list
     \<Rightarrow> nat list \<Rightarrow> tlc_vars \<times> diag list \<Rightarrow> bool"
  for lz4_frame :: "bytes \<Rightarrow> int \<Rightarrow> bytes option" and body :: bytes
    and instream :: stream and outstream :: stream
where
  walk_done: "tlc_walk lz4_frame body instream outstream s [] s"
| walk_field:
    "pointer (fst s) < int (length body) \<Longrightarrow>
     tlc_field body (fst s) = Inr (fieldid, v) \<Longrightarrow>
     tlc_dispatch lz4_frame instream outstream fieldid (v, snd s) = Inr (Continue s') \<Longrightarrow>
     tlc_walk lz4_frame body instream outstream s' ids s'' \<Longrightarrow>
     tlc_walk lz4_frame body instream outstream s (fieldid # ids) s''"



section \<open>The TLV walk\<close>

subsection \<open>One field, and runs of fields\<close>

lemma bind_err_Inr: "bind_err m f = Inr y \<longleftrightarrow> (\<exists>x. m = Inr x \<and> f x = Inr y)"
  by (cases m) (simp_all add: bind_err_def)

lemma tlc_field_keeps_lunzipped:
  "tlc_field body v = Inr (fieldid, v') \<Longrightarrow> lunzipped v' = lunzipped v"
  unfolding tlc_field_def Let_def
  by (auto simp: bind_err_Inr split: if_splits)

lemma tlc_field_name_zbuf: "tlc_field_name 16 = Inr ''zbuf''"
  by (simp add: tlc_field_name_def tlc_fields_def)

lemma tlc_field_name_unzip_len: "tlc_field_name 12 = Inr ''unzip-len''"
  by (simp add: tlc_field_name_def tlc_fields_def)

lemma tlc_field_name_out_of_table: "18 \<le> fieldid \<Longrightarrow> tlc_field_name fieldid = Inl IndexError"
  by (simp add: tlc_field_name_def tlc_fields_def)

lemma unzip_len_only_at_12:
  assumes "tlc_field_name fieldid = Inr ''unzip-len''"
  shows "fieldid = 12"
proof (rule ccontr)
  assume ne: "fieldid \<noteq> 12"
  have lt: "fieldid < length tlc_fields" and nm: "tlc_fields ! fieldid = ''unzip-len''"
    using assms by (auto simp: tlc_field_name_def split: if_splits)
  have before: "''unzip-len'' \<notin> set (take 12 tlc_fields)"
    and after: "''unzip-len'' \<notin> set (drop 13 tlc_fields)"
    by (simp_all add: tlc_fields_def)
  show False
  proof (cases "fieldid < 12")
    case True
    then have "tlc_fields ! fieldid = take 12 tlc_fields ! fieldid" by simp
    moreover have "fieldid < length (take 12 tlc_fields)" using True lt by simp
    ultimately have "tlc_fields ! fieldid \<in> set (take 12 tlc_fields)"
      by (metis nth_mem)
    with nm before show False by simp
  next
    case False
    with ne have gt: "13 \<le> fieldid" by simp
    then have "tlc_fields ! fieldid = drop 13 tlc_fields ! (fieldid - 13)"
      using lt by simp
    moreover have "fieldid - 13 < length (drop 13 tlc_fields)" using gt lt by simp
    ultimately have "tlc_fields ! fieldid \<in> set (drop 13 tlc_fields)"
      by (metis nth_mem)
    with nm after show False by simp
  qed
qed

lemma dispatch_continue:
  assumes "tlc_dispatch lz4_frame ins outs fieldid (v, log) = Inr (Continue (v', log'))"
  shows "log' = log \<and> (fieldid \<noteq> 12 \<longrightarrow> v' = v)"
proof (cases "tlc_field_name fieldid")
  case (Inl e)
  with assms show ?thesis by (simp add: tlc_dispatch_def)
next
  case (Inr field)
  show ?thesis
  proof (cases "field = ''unzip-len''")
    case True
    with Inr have "fieldid = 12" using unzip_len_only_at_12 by simp
    with assms Inr True show ?thesis
      by (auto simp: tlc_dispatch_def split: option.splits)
  next
    case False
    with assms Inr show ?thesis
      by (auto simp: tlc_dispatch_def output_info_def debug_def split: option.splits if_splits)
  qed
qed

lemma loop_step:
  assumes "pointer (fst s) < int (length body)"
      and "tlc_field body (fst s) = Inr (fieldid, v)"
  shows "parse_tlc_loop lz4_frame body ins outs s =
           (case tlc_dispatch lz4_frame ins outs fieldid (v, snd s) of
              Inl e \<Rightarrow> Some (Inl e)
            | Inr (Continue s') \<Rightarrow> parse_tlc_loop lz4_frame body ins outs s'
            | Inr (Return r) \<Rightarrow> Some (Inr r))"
  by (subst parse_tlc_loop.simps) (simp add: assms tlc_iter_def)

lemma walk_loop:
  "tlc_walk lz4_frame body ins outs s ids s' \<Longrightarrow>
   parse_tlc_loop lz4_frame body ins outs s = parse_tlc_loop lz4_frame body ins outs s'"
proof (induction rule: tlc_walk.induct)
  case (walk_done s)
  show ?case by simp
next
  case (walk_field s fieldid v s' ids s'')
  then show ?case by (simp add: loop_step)
qed

lemma walk_log: "tlc_walk lz4_frame body ins outs s ids s' \<Longrightarrow> snd s' = snd s"
proof (induction rule: tlc_walk.induct)
  case (walk_done s)
  show ?case by simp
next
  case (walk_field s fieldid v s' ids s'')
  from walk_field.hyps(3) have "snd s' = snd s"
    using dispatch_continue [of lz4_frame ins outs fieldid v "snd s" "fst s'" "snd s'"] by simp
  with walk_field.IH show ?case by simp
qed

lemma walk_lunzipped:
  "tlc_walk lz4_frame body ins outs s ids s' \<Longrightarrow> 12 \<notin> set ids \<Longrightarrow>
   lunzipped (fst s') = lunzipped (fst s)"
proof (induction rule: tlc_walk.induct)
  case (walk_done s)
  show ?case by simp
next
  case (walk_field s fieldid v s' ids s'')
  from walk_field.prems have ne: "fieldid \<noteq> 12" and rest: "12 \<notin> set ids" by auto
  from walk_field.hyps(3) ne have "fst s' = v"
    using dispatch_continue [of lz4_frame ins outs fieldid v "snd s" "fst s'" "snd s'"] by simp
  moreover have "lunzipped v = lunzipped (fst s)"
    using walk_field.hyps(2) by (rule tlc_field_keeps_lunzipped)
  ultimately show ?case using walk_field.IH [OF rest] by simp
qed

lemma zbuf_rejected:
  assumes "lunzipped v = 0 \<or> array v = Some []"
  shows "tlc_dispatch lz4_frame ins outs 16 (v, log) =
           Inr (Return ([], log @ [TlcCouldNotDecode global_file_ptr_pos (name ins)]))"
  using assms
  by (auto simp: tlc_dispatch_def tlc_field_name_zbuf output_info_def)

subsection \<open>The \<^verbatim>\<open>zbuf\<close> field\<close>

text \<open>
  Claim C4. When the walk, started by \<^verbatim>\<open>parse_tlc\<close>, reaches a \<^verbatim>\<open>zbuf\<close> field (id 16)
  whose bytes decode, and either no \<^verbatim>\<open>unzip-len\<close> field (id 12) was among the fields
  walked before it or the array held by \<^verbatim>\<open>array\<close> is empty, \<^verbatim>\<open>parse_tlc\<close> returns the
  empty buffer at that field, whatever bytes follow in the body, and the messages it
  emitted are exactly one: the error that the entry could not be decoded.
\<close>

theorem zbuf_without_unzip_len_fails:
  assumes walk: "tlc_walk lz4_frame body ins outs
                   (\<lparr>pointer = 0, lunzipped = 0, val = None, array = None\<rparr>, log) ids (v, log')"
      and more: "pointer v < int (length body)"
      and zbuf: "tlc_field body v = Inr (16, v')"
      and why: "12 \<notin> set ids \<or> array v' = Some []"
  shows "parse_tlc lz4_frame body ins outs log =
           Some (Inr ([], log @ [TlcCouldNotDecode global_file_ptr_pos (name ins)]))"
proof -
  have log: "log' = log" using walk_log [OF walk] by simp
  have "lunzipped v' = 0 \<or> array v' = Some []"
  proof (cases "12 \<in> set ids")
    case True
    with why show ?thesis by simp
  next
    case False
    then have "lunzipped v = 0" using walk_lunzipped [OF walk] by simp
    then show ?thesis using tlc_field_keeps_lunzipped [OF zbuf] by simp
  qed
  then have "tlc_dispatch lz4_frame ins outs 16 (v', log) =
               Inr (Return ([], log @ [TlcCouldNotDecode global_file_ptr_pos (name ins)]))"
    by (rule zbuf_rejected)
  then have "parse_tlc_loop lz4_frame body ins outs (v, log') =
               Some (Inr ([], log @ [TlcCouldNotDecode global_file_ptr_pos (name ins)]))"
    using more zbuf log by (simp add: loop_step)
  then show ?thesis
    using walk_loop [OF walk] by (simp add: parse_tlc_def)
qed

theorem zbuf_without_unzip_len_fails_witness:
  "parse_tlc (\<lambda>a n. Some a) [0x30, 0x0B, 0x05, 0x00, 0x10, 0x00, 0x30, 0x0C, 0x07]
     \<lparr>name = ''elog.csv'', data = [], pos = 0\<rparr> \<lparr>name = ''elog.gz'', data = [], pos = 0\<rparr> []
   = Some (Inr ([], [TlcCouldNotDecode 0 ''elog.csv'']))"
proof -
  let ?body = "[0x30, 0x0B, 0x05, 0x00, 0x10, 0x00, 0x30, 0x0C, 0x07] :: bytes"
  let ?lz = "(\<lambda>a n. Some a) :: bytes \<Rightarrow> int \<Rightarrow> bytes option"
  let ?ins = "\<lparr>name = ''elog.csv'', data = [], pos = 0\<rparr>"
  let ?outs = "\<lparr>name = ''elog.gz'', data = [], pos = 0\<rparr>"
  let ?v0 = "\<lparr>pointer = 0, lunzipped = 0, val = None, array = None\<rparr>"
  let ?v1 = "\<lparr>pointer = 3, lunzipped = 0, val = Some 5, array = None\<rparr>"
  let ?v2 = "\<lparr>pointer = 6, lunzipped = 0, val = Some 5, array = Some []\<rparr>"
  have f1: "tlc_field ?body (fst (?v0, [])) = Inr (11, ?v1)"
    by (simp add: tlc_field_def bind_err_def py_index_def)
  have d1: "tlc_dispatch ?lz ?ins ?outs 11 (?v1, snd (?v0, [])) = Inr (Continue (?v1, []))"
    by (simp add: tlc_dispatch_def tlc_field_name_def tlc_fields_def output_info_def debug_def)
  have walk: "tlc_walk ?lz ?body ?ins ?outs (?v0, []) [11] (?v1, [])"
    by (rule walk_field [OF _ f1 d1 walk_done]) simp
  have f2: "tlc_field ?body ?v1 = Inr (16, ?v2)"
    by (simp add: tlc_field_def bind_err_def py_index_def py_slice_def slice_bound_def)
  show ?thesis
    using zbuf_without_unzip_len_fails [OF walk _ f2] by (simp add: global_file_ptr_pos_def)
qed

text \<open>
  Claim C10. An \<^verbatim>\<open>unzip-len\<close> field whose decoded value is 0 leaves \<^verbatim>\<open>lunzipped\<close> at 0,
  the value it has before any such field: whatever size was recorded earlier, a
  \<^verbatim>\<open>zbuf\<close> field reached after it, with no other \<^verbatim>\<open>unzip-len\<close> field in between, makes
  \<^verbatim>\<open>parse_tlc\<close> emit the error of an undecodable entry and return the empty buffer,
  even when the array of the \<^verbatim>\<open>zbuf\<close> field is not empty.
\<close>

theorem unzip_len_zero_is_unrecorded:
  assumes "pointer v0 < int (length body)"
      and "tlc_field body v0 = Inr (12, v1)"
      and "val v1 = Some 0"
      and walk: "tlc_walk lz4_frame body ins outs (v1\<lparr>lunzipped := 0\<rparr>, log) ids (v2, log2)"
      and "12 \<notin> set ids"
      and "pointer v2 < int (length body)"
      and zbuf: "tlc_field body v2 = Inr (16, v3)"
  shows "parse_tlc_loop lz4_frame body ins outs (v0, log) =
           Some (Inr ([], log @ [TlcCouldNotDecode global_file_ptr_pos (name ins)]))"
proof -
  have "tlc_dispatch lz4_frame ins outs 12 (v1, log) = Inr (Continue (v1\<lparr>lunzipped := 0\<rparr>, log))"
    using assms(3) by (simp add: tlc_dispatch_def tlc_field_name_unzip_len)
  then have first: "parse_tlc_loop lz4_frame body ins outs (v0, log) =
                parse_tlc_loop lz4_frame body ins outs (v1\<lparr>lunzipped := 0\<rparr>, log)"
    using assms(1,2) by (simp add: loop_step)
  have log: "log2 = log" using walk_log [OF walk] by simp
  have "lunzipped v2 = 0" using walk_lunzipped [OF walk assms(5)] by simp
  then have "lunzipped v3 = 0" using tlc_field_keeps_lunzipped [OF zbuf] by simp
  then have "tlc_dispatch lz4_frame ins outs 16 (v3, log) =
               Inr (Return ([], log @ [TlcCouldNotDecode global_file_ptr_pos (name ins)]))"
    by (simp add: zbuf_rejected)
  then have "parse_tlc_loop lz4_frame body ins outs (v2, log2) =
               Some (Inr ([], log @ [TlcCouldNotDecode global_file_ptr_pos (name ins)]))"
    using assms(6) zbuf log by (simp add: loop_step)
  with first walk_loop [OF walk] show ?thesis by simp
qed

theorem unzip_len_zero_is_unrecorded_witness:
  "parse_tlc_loop (\<lambda>a n. Some a) [0x30, 0x0C, 0x00, 0x30, 0x0B, 0x02, 0x00, 0x10, 0x01, 0x41]
     \<lparr>name = ''elog.csv'', data = [], pos = 0\<rparr> \<lparr>name = ''elog.gz'', data = [], pos = 0\<rparr>
     (\<lparr>pointer = 0, lunzipped = 7, val = None, array = None\<rparr>, [])
   = Some (Inr ([], [TlcCouldNotDecode 0 ''elog.csv'']))"
proof -
  let ?body = "[0x30, 0x0C, 0x00, 0x30, 0x0B, 0x02, 0x00, 0x10, 0x01, 0x41] :: bytes"
  let ?lz = "(\<lambda>a n. Some a) :: bytes \<Rightarrow> int \<Rightarrow> bytes option"
  let ?ins = "\<lparr>name = ''elog.csv'', data = [], pos = 0\<rparr>"
  let ?outs = "\<lparr>name = ''elog.gz'', data = [], pos = 0\<rparr>"
  let ?v0 = "\<lparr>pointer = 0, lunzipped = 7, val = None, array = None\<rparr>"
  let ?v1 = "\<lparr>pointer = 3, lunzipped = 7, val = Some 0, array = None\<rparr>"
  let ?v1' = "\<lparr>pointer = 3, lunzipped = 0, val = Some 0, array = None\<rparr>"
  let ?v2 = "\<lparr>pointer = 6, lunzipped = 0, val = Some 2, array = None\<rparr>"
  let ?v3 = "\<lparr>pointer = 10, lunzipped = 0, val = Some 2, array = Some [0x41]\<rparr>"
  have f1: "tlc_field ?body ?v0 = Inr (12, ?v1)"
    by (simp add: tlc_field_def bind_err_def py_index_def)
  have f2: "tlc_field ?body (fst (?v1', [])) = Inr (11, ?v2)"
    by (simp add: tlc_field_def bind_err_def py_index_def)
  have d2: "tlc_dispatch ?lz ?ins ?outs 11 (?v2, snd (?v1', [])) = Inr (Continue (?v2, []))"
    by (simp add: tlc_dispatch_def tlc_field_name_def tlc_fields_def output_info_def debug_def)
  have "tlc_walk ?lz ?body ?ins ?outs (?v1', []) [11] (?v2, [])"
    by (rule walk_field [OF _ f2 d2 walk_done]) simp
  then have walk: "tlc_walk ?lz ?body ?ins ?outs (?v1\<lparr>lunzipped := 0\<rparr>, []) [11] (?v2, [])"
    by simp
  have f3: "tlc_field ?body ?v2 = Inr (16, ?v3)"
    by (simp add: tlc_field_def bind_err_def py_index_def py_slice_def slice_bound_def)
  show ?thesis
    using unzip_len_zero_is_unrecorded [OF _ f1 _ walk _ _ f3] by (simp add: global_file_ptr_pos_def)
qed

subsection \<open>The field id\<close>

text \<open>
  Claim C2, as amended. The source looks the field id up in the 18-entry table without
  any check. When the walk reaches a field whose bytes decode and whose id is 18 or
  more, the lookup raises \<^verbatim>\<open>IndexError\<close>: \<^verbatim>\<open>parse_tlc\<close> neither returns an empty buffer
  nor emits a message, and the exception leaves it (and \<^verbatim>\<open>decode_llogv5\<close>, which has
  no handler around the call).
\<close>

theorem field_id_out_of_table_raises:
  assumes "pointer v < int (length body)"
      and "tlc_field body v = Inr (fieldid, v')"
      and "18 \<le> fieldid"
  shows "parse_tlc_loop lz4_frame body ins outs (v, log) = Some (Inl (IndexError, log))"
  using assms by (simp add: loop_step tlc_dispatch_def tlc_field_name_out_of_table)

theorem field_id_out_of_table_raises_witness:
  "parse_tlc_loop (\<lambda>a n. Some a) [0x30, 0x12, 0x00]
     \<lparr>name = ''elog.csv'', data = [], pos = 0\<rparr> \<lparr>name = ''elog.gz'', data = [], pos = 0\<rparr>
     (\<lparr>pointer = 0, lunzipped = 0, val = None, array = None\<rparr>, [])
   = Some (Inl (IndexError, []))"
proof -
  have "tlc_field [0x30, 0x12, 0x00] \<lparr>pointer = 0, lunzipped = 0, val = None, array = None\<rparr>
          = Inr (18, \<lparr>pointer = 3, lunzipped = 0, val = Some 0, array = None\<rparr>)"
    by (simp add: tlc_field_def bind_err_def py_index_def)
  then show ?thesis
    using field_id_out_of_table_raises [of "\<lparr>pointer = 0, lunzipped = 0, val = None, array = None\<rparr>"
      "[0x30, 0x12, 0x00]" 18 "\<lparr>pointer = 3, lunzipped = 0, val = Some 0, array = None\<rparr>"]
    by simp
qed

text \<open>
  The claim as first stated, that such a body makes the parser return an empty buffer,
  fails on the smallest body of that kind, alone and inside an envelope record.
\<close>

theorem field_id_out_of_table_counterexample:
  "parse_tlc (\<lambda>a n. None) [0x30, 0x12, 0x00]
     \<lparr>name = ''elog.csv'', data = [], pos = 0\<rparr> \<lparr>name = ''elog.gz'', data = [], pos = 0\<rparr> []
     = Some (Inl (IndexError, []))
   \<and> decode_llogv5 (\<lambda>c n. None) (\<lambda>a n. None)
       \<lparr>name = ''elog.gz'', data = [0xAA, 0x01, 0x00, 0x00, 0x00, 0x00, 0x00, 0x0B, 0x30, 0x12, 0x00], pos = 0\<rparr>
       ''elog.gz'' \<lparr>name = ''elog.csv'', data = [], pos = 0\<rparr>
     = Some (Inl (IndexError,
         \<lparr>instream = \<lparr>name = ''elog.gz'',
                       data = [0xAA, 0x01, 0x00, 0x00, 0x00, 0x00, 0x00, 0x0B, 0x30, 0x12, 0x00], pos = 11\<rparr>,
          outstream = \<lparr>name = ''elog.csv'', data = [], pos = 0\<rparr>, diags = [], logentries = 0\<rparr>))"
  by code_simp

subsection \<open>Termination and the decoded values\<close>

lemma loop_cycle_never_returns:
  assumes more: "pointer (fst s) < int (length body)"
      and cycle: "\<And>lz ins outs. tlc_iter lz body ins outs s = Inr (Continue s)"
  shows "parse_tlc_loop lz4_frame body ins outs s = None"
proof (rule ccontr)
  assume "parse_tlc_loop lz4_frame body ins outs s \<noteq> None"
  then obtain y where ret: "parse_tlc_loop lz4_frame body ins outs s = Some y"
    by auto
  have "body = body \<longrightarrow> s = s \<longrightarrow> False"
  proof (rule parse_tlc_loop.raw_induct
      [where P = "\<lambda>l b i out t y. b = body \<longrightarrow> t = s \<longrightarrow> False", OF _ ret])
    fix f :: "(bytes \<Rightarrow> int \<Rightarrow> bytes option) \<Rightarrow> bytes \<Rightarrow> stream \<Rightarrow> stream \<Rightarrow> tlc_vars \<times> diag list
                \<Rightarrow> (error \<times> diag list + bytes \<times> diag list) option"
      and l b i out t y
    assume IH: "\<And>l b i out t y. f l b i out t = Some y \<Longrightarrow> b = body \<longrightarrow> t = s \<longrightarrow> False"
      and eq: "(if pointer (fst t) < int (length b) then
                  (case tlc_iter l b i out t of
                     Inl e \<Rightarrow> Some (Inl e)
                   | Inr (Continue s') \<Rightarrow> f l b i out s'
                   | Inr (Return r) \<Rightarrow> Some (Inr r))
                else Some (Inr ([], snd t))) = Some y"
    show "b = body \<longrightarrow> t = s \<longrightarrow> False"
    proof (intro impI)
      assume "b = body" and "t = s"
      with eq more cycle have "f l body i out s = Some y"
        by simp
      then show False using IH by blast
    qed
  qed
  with ret show False by blast
qed

text \<open>
  Claim C9 is about the termination of the walk. The length prefix of a category 1 field
  is unpacked as a signed 16-bit integer. In the body \<^verbatim>\<open>10 01 FF FC\<close> the prefix is
  \<open>-4\<close>, the cursor returns to 0 after the field, and the field id 1 makes the loop
  continue: the walk reads the same field for ever, and \<^verbatim>\<open>parse_tlc\<close> never returns.
\<close>

theorem negative_array_length_walk_never_returns:
  "parse_tlc lz4_frame [0x10, 0x01, 0xFF, 0xFC] ins outs log = None"
proof -
  let ?body = "[0x10, 0x01, 0xFF, 0xFC] :: bytes"
  let ?v0 = "\<lparr>pointer = 0, lunzipped = 0, val = None, array = None\<rparr>"
  let ?v1 = "\<lparr>pointer = 0, lunzipped = 0, val = None, array = Some []\<rparr>"
  have field: "tlc_field ?body v = Inr (1, v\<lparr>array := Some [], pointer := 0\<rparr>)"
    if "pointer v = 0" for v
    using that
    by (simp add: tlc_field_def bind_err_def py_index_def unpack_h_def unpack_raw_def
        signed_be_def from_bytes_big_def py_slice_def slice_bound_def)
  have skip: "tlc_dispatch lz ins outs (Suc 0) s = Inr (Continue s)" for lz ins outs s
    by (simp add: tlc_dispatch_def tlc_field_name_def tlc_fields_def)
  have "parse_tlc_loop lz4_frame ?body ins outs (?v0, log) =
        parse_tlc_loop lz4_frame ?body ins outs (?v1, log)"
    using field [of ?v0] by (simp add: loop_step skip)
  moreover have "parse_tlc_loop lz4_frame ?body ins outs (?v1, log) = None"
  proof (rule loop_cycle_never_returns)
    show "pointer (fst (?v1, log)) < int (length ?body)" by simp
    show "tlc_iter lz ?body ins outs (?v1, log) = Inr (Continue (?v1, log))" for lz ins outs
      using field [of ?v1] by (simp add: tlc_iter_def skip)
  qed
  ultimately show ?thesis by (simp add: parse_tlc_def)
qed

text \<open>
  Claim C7 is about the values decoded for each category. For category 6 the source
  advances the cursor by 8 bytes but unpacks with the format \<^verbatim>\<open>>l\<close>, which reads 4 bytes:
  the 8-byte big-endian integer 100 of an \<^verbatim>\<open>unzip-len\<close> field is decoded as 0, and the
  \<^verbatim>\<open>zbuf\<close> field that follows is rejected as if no size had been recorded.
\<close>

theorem eight_byte_integer_read_from_four_bytes:
  "tlc_field [0x60, 0x0C, 0x00, 0x00, 0x00, 0x00, 0x00, 0x00, 0x00, 0x64, 0x00, 0x10, 0x01, 0x41]
     \<lparr>pointer = 0, lunzipped = 0, val = None, array = None\<rparr>
     = Inr (12, \<lparr>pointer = 10, lunzipped = 0, val = Some 0, array = None\<rparr>)
   \<and> parse_tlc lz4_frame
       [0x60, 0x0C, 0x00, 0x00, 0x00, 0x00, 0x00, 0x00, 0x00, 0x64, 0x00, 0x10, 0x01, 0x41]
       ins outs log
     = Some (Inr ([], log @ [TlcCouldNotDecode 0 (name ins)]))"
  by (simp add: parse_tlc_def parse_tlc_loop.simps tlc_iter_def tlc_field_def tlc_dispatch_def
      py_index_def bind_err_def unpack_l_def unpack_raw_def signed_be_def from_bytes_big_def
      tlc_field_name_def tlc_fields_def py_slice_def slice_bound_def output_info_def
      global_file_ptr_pos_def)

section \<open>Block records\<close>












section \<open>Envelope records\<close>













section \<open>The scanner\<close>

text \<open>
  Claim C5. When the scanner reads a non-empty tag that is neither of the two magic
  values nor padding (two zero bytes, or one zero byte), it emits exactly one message,
  the one for an unknown header with the source file, the raw tag and the offset at which
  the tag was read, and the scan ends there with a normal result: no exception, and
  nothing read from the stream beyond the tag.
\<close>

theorem unknown_tag_terminates_scan:
  assumes "read_n (instream st) 2 = (logtype, ins)"
      and "logtype \<noteq> []" and "logtype \<noteq> magic" and "logtype \<noteq> tlc_magic"
      and "logtype \<noteq> [0x00, 0x00]" and "logtype \<noteq> [0x00]"
  shows "decode_llogv5_loop lz4_block lz4_frame sourcefile st =
           Some (Inr (st\<lparr>instream := ins,
                          diags := diags st @ [UnknownHeader sourcefile logtype (tell (instream st))]\<rparr>))
         \<and> ins = (instream st)\<lparr>pos := pos (instream st) + length logtype\<rparr>"
proof -
  have iter: "llogv5_iter lz4_block lz4_frame sourcefile st =
      Some (Inr (Return (st\<lparr>instream := ins,
                          diags := diags st @ [UnknownHeader sourcefile logtype (tell (instream st))]\<rparr>)))"
    using assms by (simp add: llogv5_iter_def output_info_def)
  have "decode_llogv5_loop lz4_block lz4_frame sourcefile st =
      Some (Inr (st\<lparr>instream := ins,
                          diags := diags st @ [UnknownHeader sourcefile logtype (tell (instream st))]\<rparr>))"
    by (subst decode_llogv5_loop.simps) (simp add: iter)
  moreover have "ins = (instream st)\<lparr>pos := pos (instream st) + length logtype\<rparr>"
    using assms(1) by (auto simp: read_n_def Let_def)
  ultimately show ?thesis by simp
qed

theorem unknown_tag_terminates_scan_witness:
  "decode_llogv5_loop (\<lambda>c n. None) (\<lambda>a n. None) ''elog.gz''
     \<lparr>instream = \<lparr>name = ''elog.gz'', data = [0x00, 0x00, 0xFF, 0xFF, 0xEC, 0xCF], pos = 2\<rparr>,
      outstream = \<lparr>name = ''elog.csv'', data = [], pos = 0\<rparr>, diags = [], logentries = 0\<rparr>
   = Some (Inr \<lparr>instream = \<lparr>name = ''elog.gz'', data = [0x00, 0x00, 0xFF, 0xFF, 0xEC, 0xCF], pos = 4\<rparr>,
      outstream = \<lparr>name = ''elog.csv'', data = [], pos = 0\<rparr>,
      diags = [UnknownHeader ''elog.gz'' [0xFF, 0xFF] 2], logentries = 0\<rparr>)"
  using unknown_tag_terminates_scan [of
     "\<lparr>instream = \<lparr>name = ''elog.gz'', data = [0x00, 0x00, 0xFF, 0xFF, 0xEC, 0xCF], pos = 2\<rparr>,
      outstream = \<lparr>name = ''elog.csv'', data = [], pos = 0\<rparr>, diags = [], logentries = 0\<rparr>"
     "[0xFF, 0xFF]" "\<lparr>name = ''elog.gz'', data = [0x00, 0x00, 0xFF, 0xFF, 0xEC, 0xCF], pos = 4\<rparr>"
     "\<lambda>c n. None" "\<lambda>a n. None" "''elog.gz''"]
  by (simp add: read_n_def magic_def tlc_magic_def tell_def)

text \<open>
  Claim C1 is about a block record whose payload fails to decompress. The handler of the
  exception emits the error and ends with \<^verbatim>\<open>continue\<close>, so the trailer length and the
  trailer are not read on this path: the scanner takes the two bytes of the trailer
  length for the next tag. In the stream below the first record has a trailer of two
  bytes and is followed by a well-formed record; the scan stops at offset 21 with an
  unknown header \<^verbatim>\<open>02 00\<close> and the second record is never decoded.
\<close>

theorem failed_block_leaves_trailer_unread:
  assumes "lz4_block [0xFF] 2 = None"
  shows "decode_llogv5 lz4_block lz4_frame
     \<lparr>name = ''elog.gz'',
      data = [0xEC, 0xCF, 0x00, 0x00, 0x00, 0x00, 0x00, 0x00, 0x00, 0x01, 0x00, 0x01, 0x00, 0x01,
              0x00, 0x00, 0x00, 0x00, 0x00, 0x01, 0xFF, 0x02, 0x00, 0xAA, 0xBB,
              0xEC, 0xCF, 0x00, 0x00, 0x00, 0x00, 0x00, 0x00, 0x00, 0x01, 0x00, 0x02, 0x00, 0x01,
              0x00, 0x00, 0x00, 0x00, 0x00, 0x01, 0x10, 0x41, 0x00, 0x00], pos = 0\<rparr>
     ''elog.gz'' \<lparr>name = ''elog.csv'', data = [], pos = 0\<rparr>
   = Some (Inr \<lparr>instream = \<lparr>name = ''elog.gz'',
      data = [0xEC, 0xCF, 0x00, 0x00, 0x00, 0x00, 0x00, 0x00, 0x00, 0x01, 0x00, 0x01, 0x00, 0x01,
              0x00, 0x00, 0x00, 0x00, 0x00, 0x01, 0xFF, 0x02, 0x00, 0xAA, 0xBB,
              0xEC, 0xCF, 0x00, 0x00, 0x00, 0x00, 0x00, 0x00, 0x00, 0x01, 0x00, 0x02, 0x00, 0x01,
              0x00, 0x00, 0x00, 0x00, 0x00, 0x01, 0x10, 0x41, 0x00, 0x00], pos = 23\<rparr>,
       outstream = \<lparr>name = ''elog.csv'', data = [], pos = 0\<rparr>,
       diags = [Lz4Skipped 0 ''elog.gz'', UnknownHeader ''elog.gz'' [0x02, 0x00] 21],
       logentries = 0\<rparr>)"
  using assms
  by (simp add: decode_llogv5_def decode_llogv5_loop.simps llogv5_iter_def block_record_def
      read_n_def tell_def magic_def tlc_magic_def from_bytes_big_def
      py_index_def py_slice_def slice_bound_def output_info_def debug_def)

theorem failed_block_leaves_trailer_unread_witness:
  "decode_llogv5 (\<lambda>c n. if c = [0x10, 0x41] then Some [0x41] else None) (\<lambda>a n. None)
     \<lparr>name = ''elog.gz'',
      data = [0xEC, 0xCF, 0x00, 0x00, 0x00, 0x00, 0x00, 0x00, 0x00, 0x01, 0x00, 0x01, 0x00, 0x01,
              0x00, 0x00, 0x00, 0x00, 0x00, 0x01, 0xFF, 0x02, 0x00, 0xAA, 0xBB,
              0xEC, 0xCF, 0x00, 0x00, 0x00, 0x00, 0x00, 0x00, 0x00, 0x01, 0x00, 0x02, 0x00, 0x01,
              0x00, 0x00, 0x00, 0x00, 0x00, 0x01, 0x10, 0x41, 0x00, 0x00], pos = 0\<rparr>
     ''elog.gz'' \<lparr>name = ''elog.csv'', data = [], pos = 0\<rparr>
   = Some (Inr \<lparr>instream = \<lparr>name = ''elog.gz'',
      data = [0xEC, 0xCF, 0x00, 0x00, 0x00, 0x00, 0x00, 0x00, 0x00, 0x01, 0x00, 0x01, 0x00, 0x01,
              0x00, 0x00, 0x00, 0x00, 0x00, 0x01, 0xFF, 0x02, 0x00, 0xAA, 0xBB,
              0xEC, 0xCF, 0x00, 0x00, 0x00, 0x00, 0x00, 0x00, 0x00, 0x01, 0x00, 0x02, 0x00, 0x01,
              0x00, 0x00, 0x00, 0x00, 0x00, 0x01, 0x10, 0x41, 0x00, 0x00], pos = 23\<rparr>,
       outstream = \<lparr>name = ''elog.csv'', data = [], pos = 0\<rparr>,
       diags = [Lz4Skipped 0 ''elog.gz'', UnknownHeader ''elog.gz'' [0x02, 0x00] 21],
       logentries = 0\<rparr>)"
  using failed_block_leaves_trailer_unread
    [of "\<lambda>c n. if c = [0x10, 0x41] then Some [0x41] else None" "\<lambda>a n. None"]
  by simp

text \<open>
  For comparison, the other path of the same record decoder: when the payload of the first
  record of that stream decompresses, the trailer length and the trailer are read, the
  scanner finds the second record at offset 25, and both records give their entry.
\<close>

lemma decoded_block_skips_trailer:
  assumes "lz4_block [0xFF] 2 = Some [0x41]" and "lz4_block [0x10, 0x41] 2 = Some [0x42]"
  shows "decode_llogv5 lz4_block lz4_frame
     \<lparr>name = ''elog.gz'',
      data = [0xEC, 0xCF, 0x00, 0x00, 0x00, 0x00, 0x00, 0x00, 0x00, 0x01, 0x00, 0x01, 0x00, 0x01,
              0x00, 0x00, 0x00, 0x00, 0x00, 0x01, 0xFF, 0x02, 0x00, 0xAA, 0xBB,
              0xEC, 0xCF, 0x00, 0x00, 0x00, 0x00, 0x00, 0x00, 0x00, 0x01, 0x00, 0x02, 0x00, 0x01,
              0x00, 0x00, 0x00, 0x00, 0x00, 0x01, 0x10, 0x41, 0x00, 0x00], pos = 0\<rparr>
     ''elog.gz'' \<lparr>name = ''elog.csv'', data = [], pos = 0\<rparr>
   = Some (Inr \<lparr>instream = \<lparr>name = ''elog.gz'',
      data = [0xEC, 0xCF, 0x00, 0x00, 0x00, 0x00, 0x00, 0x00, 0x00, 0x01, 0x00, 0x01, 0x00, 0x01,
              0x00, 0x00, 0x00, 0x00, 0x00, 0x01, 0xFF, 0x02, 0x00, 0xAA, 0xBB,
              0xEC, 0xCF, 0x00, 0x00, 0x00, 0x00, 0x00, 0x00, 0x00, 0x01, 0x00, 0x02, 0x00, 0x01,
              0x00, 0x00, 0x00, 0x00, 0x00, 0x01, 0x10, 0x41, 0x00, 0x00], pos = 49\<rparr>,
       outstream = \<lparr>name = ''elog.csv'', data = [0x41, 0x0A, 0x42, 0x0A], pos = 0\<rparr>,
       diags = [Done ''elog.gz'' 2],
       logentries = 2\<rparr>)"
  using assms
  by (simp add: decode_llogv5_def decode_llogv5_loop.simps llogv5_iter_def block_record_def
      read_n_def tell_def magic_def tlc_magic_def from_bytes_big_def from_bytes_little_def
      py_index_def py_slice_def slice_bound_def output_info_def debug_def
      block_entries_def output_logs_def write_bytes_def)

text \<open>
  Claim C8 is about the error that \<^verbatim>\<open>parse_tlc\<close> emits for an envelope record. The
  record below starts at offset 2 of the stream \<^verbatim>\<open>elog.gz\<close>; its \<^verbatim>\<open>zbuf\<close> field is
  empty. The message names the offset 0, the value of the module-level
  \<^verbatim>\<open>file_ptr_pos\<close>, and the name of the output stream, which the call passes in the
  place of the input stream.
\<close>

theorem tlc_error_names_offset_zero_and_output_stream:
  "decode_llogv5 lz4_block lz4_frame
     \<lparr>name = ''elog.gz'',
      data = [0x00, 0x00, 0xAA, 0x01, 0x00, 0x00, 0x00, 0x00, 0x00, 0x0B, 0x00, 0x10, 0x00], pos = 0\<rparr>
     ''elog.gz'' \<lparr>name = ''elog.csv'', data = [], pos = 0\<rparr>
   = Some (Inr \<lparr>instream = \<lparr>name = ''elog.gz'',
         data = [0x00, 0x00, 0xAA, 0x01, 0x00, 0x00, 0x00, 0x00, 0x00, 0x0B, 0x00, 0x10, 0x00], pos = 13\<rparr>,
       outstream = \<lparr>name = ''elog.csv'', data = [], pos = 0\<rparr>,
       diags = [TlcCouldNotDecode 0 ''elog.csv'', Done ''elog.gz'' 0],
       logentries = 0\<rparr>)"
  by (simp add: decode_llogv5_def decode_llogv5_loop.simps llogv5_iter_def tlc_record_def
      read_n_def read_def tell_def magic_def tlc_magic_def from_bytes_big_def
      parse_tlc_def parse_tlc_loop.simps tlc_iter_def tlc_field_def tlc_dispatch_def
      py_index_def bind_err_def tlc_field_name_def tlc_fields_def py_slice_def slice_bound_def
      output_info_def debug_def global_file_ptr_pos_def tlc_entries_def date_marker_def output_logs_def)

end
